theory Spec2Isabelle
  imports Complex_Main "HOL-Library.AList" "HOL-Library.Multiset"
begin

section \<open>Conventions of the embedding\<close>

text \<open>
  The orchestrator of the repository (\<^verbatim>\<open>multi_llm_router.py\<close> and
  \<^verbatim>\<open>task_coordinator.py\<close>) is embedded function by function.

  \<^item> A Python \<^verbatim>\<open>dict\<close> whose iteration order matters is an association list with
    distinct keys; \<^verbatim>\<open>d[k] = v\<close> is \<^const>\<open>AList.update\<close> (the value is replaced in
    place, a new key goes to the end) and \<^verbatim>\<open>d.get(k, dflt)\<close> is \<open>dict_get\<close>.
  \<^item> A Python \<^verbatim>\<open>float\<close> is an exact rational number: the cost tables hold decimal
    constants, and rounding to one decimal place is written out (\<open>py_round1\<close>).
  \<^item> A raised exception is the left summand of a result \<open>exn + 'a\<close>.
  \<^item> The classes of the LLM client library and the clock are outside the repository:
    they are parameters (\<open>chat\<close>, \<open>now\<close>) of the functions that call them. So is the
    order in which a thread pool hands back its futures (\<open>as_completed\<close>).
  \<^item> Text is ASCII, a list of characters; \<^verbatim>\<open>upper()\<close> and \<^verbatim>\<open>lower()\<close> are the
    maps of the ASCII letters, and the classes \<^verbatim>\<open>\s\<close> and \<^verbatim>\<open>\d\<close> are their ASCII
    members. \<^verbatim>\<open>int\<close> is unbounded.
\<close>

datatype exn = ValueError string | RuntimeError string | OtherError string

text \<open>\<^verbatim>\<open>str(e)\<close> of an exception built from one message.\<close>

fun str_exn :: "exn \<Rightarrow> string" where
  "str_exn (ValueError m) = m"
| "str_exn (RuntimeError m) = m"
| "str_exn (OtherError m) = m"

text \<open>\<^verbatim>\<open>d.get(k, dflt)\<close> on a dictionary.\<close>

definition dict_get :: "('k \<times> 'v) list \<Rightarrow> 'k \<Rightarrow> 'v \<Rightarrow> 'v" where
  "dict_get d k dflt = (case map_of d k of None \<Rightarrow> dflt | Some v \<Rightarrow> v)"

text \<open>Truth value of an optional string: \<^verbatim>\<open>None\<close> and the empty string are false.\<close>

fun truthy_str :: "string option \<Rightarrow> bool" where
  "truthy_str None = False"
| "truthy_str (Some s) = (s \<noteq> [])"

text \<open>Truth value of an optional number: \<^verbatim>\<open>None\<close> and zero are false.\<close>

fun truthy_num :: "rat option \<Rightarrow> bool" where
  "truthy_num None = False"
| "truthy_num (Some x) = (x \<noteq> 0)"

section \<open>The router: \<^verbatim>\<open>multi_llm_router.py\<close>\<close>

datatype TaskComplexity = SIMPLE | MODERATE | COMPLEX | CRITICAL

record model_cost =
  input_price :: rat
  output_price :: rat

text \<open>Cost per million tokens, in USD.\<close>

definition COST_MAP :: "(string \<times> model_cost) list" where
  "COST_MAP =
    [(''gpt-4o'', \<lparr>input_price = 250 / 100, output_price = 1000 / 100\<rparr>),
     (''gpt-4o-mini'', \<lparr>input_price = 15 / 100, output_price = 60 / 100\<rparr>),
     (''gpt-3.5-turbo'', \<lparr>input_price = 50 / 100, output_price = 150 / 100\<rparr>),
     (''claude-3-5-sonnet-20241022'', \<lparr>input_price = 300 / 100, output_price = 1500 / 100\<rparr>),
     (''claude-3-5-haiku-20241022'', \<lparr>input_price = 80 / 100, output_price = 400 / 100\<rparr>),
     (''claude-3-opus-20240229'', \<lparr>input_price = 1500 / 100, output_price = 7500 / 100\<rparr>),
     (''llama-3.3-70b-versatile'', \<lparr>input_price = 59 / 100, output_price = 79 / 100\<rparr>),
     (''llama-3.1-8b-instant'', \<lparr>input_price = 5 / 100, output_price = 8 / 100\<rparr>),
     (''gemini-2.0-flash-exp'', \<lparr>input_price = 0, output_price = 0\<rparr>),
     (''gemini-1.5-pro'', \<lparr>input_price = 125 / 100, output_price = 500 / 100\<rparr>)]"

text \<open>Ranked candidates of each tier.\<close>

fun COMPLEXITY_MODELS :: "TaskComplexity \<Rightarrow> (string \<times> string) list" where
  "COMPLEXITY_MODELS SIMPLE =
    [(''groq'', ''llama-3.1-8b-instant''),
     (''google'', ''gemini-2.0-flash-exp''),
     (''openai'', ''gpt-4o-mini'')]"
| "COMPLEXITY_MODELS MODERATE =
    [(''openai'', ''gpt-4o-mini''),
     (''google'', ''gemini-2.0-flash-exp''),
     (''anthropic'', ''claude-3-5-haiku-20241022''),
     (''groq'', ''llama-3.3-70b-versatile'')]"
| "COMPLEXITY_MODELS COMPLEX =
    [(''openai'', ''gpt-4o''),
     (''anthropic'', ''claude-3-5-sonnet-20241022''),
     (''google'', ''gemini-1.5-pro'')]"
| "COMPLEXITY_MODELS CRITICAL =
    [(''anthropic'', ''claude-3-opus-20240229''),
     (''openai'', ''gpt-4o''),
     (''anthropic'', ''claude-3-5-sonnet-20241022'')]"

record MultiLLMRouter =
  default_provider :: "string option"
  default_model :: "string option"
  cost_optimization :: bool
  temperature :: rat
  available_providers :: "(string \<times> bool) list"

text \<open>
  \<^verbatim>\<open>_check_available_providers\<close>: \<open>getenv\<close> is \<^verbatim>\<open>os.getenv\<close>; a provider is
  available when its API key is set to a non-empty string.
\<close>

definition check_available_providers :: "(string \<Rightarrow> string option) \<Rightarrow> (string \<times> bool) list" where
  "check_available_providers getenv =
    [(''openai'', truthy_str (getenv ''OPENAI_API_KEY'')),
     (''anthropic'', truthy_str (getenv ''ANTHROPIC_API_KEY'')),
     (''groq'', truthy_str (getenv ''GROQ_API_KEY'')),
     (''google'', truthy_str (getenv ''GOOGLE_API_KEY''))]"

text \<open>\<^verbatim>\<open>MultiLLMRouter.__init__\<close>.\<close>

definition MultiLLMRouter_init ::
  "(string \<Rightarrow> string option) \<Rightarrow> string option \<Rightarrow> string option \<Rightarrow> bool \<Rightarrow> rat \<Rightarrow> MultiLLMRouter" where
  "MultiLLMRouter_init getenv dp dm co temp =
    \<lparr>default_provider = dp, default_model = dm, cost_optimization = co,
     temperature = temp, available_providers = check_available_providers getenv\<rparr>"

text \<open>
  \<^verbatim>\<open>_create_llm\<close>. The argument \<open>chat\<close> stands for the four client classes of the
  LLM library: given the class name, the model and the temperature it returns the client
  or the exception its constructor raised.
\<close>

definition create_llm ::
  "(string \<Rightarrow> string \<Rightarrow> rat \<Rightarrow> exn + 'l) \<Rightarrow> MultiLLMRouter \<Rightarrow> string \<Rightarrow> string \<Rightarrow> exn + 'l" where
  "create_llm chat r provider model =
    (if provider = ''openai'' then chat ''ChatOpenAI'' model (temperature r)
     else if provider = ''anthropic'' then chat ''ChatAnthropic'' model (temperature r)
     else if provider = ''groq'' then chat ''ChatGroq'' model (temperature r)
     else if provider = ''google'' then chat ''ChatGoogleGenerativeAI'' model (temperature r)
     else Inl (ValueError (''Unsupported provider: '' @ provider)))"

text \<open>\<^verbatim>\<open>_get_fallback_model\<close>.\<close>

definition get_fallback_model :: "string \<Rightarrow> string" where
  "get_fallback_model provider =
    dict_get
      [(''openai'', ''gpt-4o-mini''),
       (''anthropic'', ''claude-3-5-haiku-20241022''),
       (''groq'', ''llama-3.1-8b-instant''),
       (''google'', ''gemini-2.0-flash-exp'')]
      provider ''gpt-4o-mini''"

text \<open>
  The average cost \<^verbatim>\<open>(model_cost.get("input", 0) + model_cost.get("output", 0)) / 2\<close>
  of a model, where \<^verbatim>\<open>model_cost = COST_MAP.get(model, {})\<close>.
\<close>

definition avg_cost :: "string \<Rightarrow> rat" where
  "avg_cost model =
    (case map_of COST_MAP model of
       None \<Rightarrow> (0 + 0) / 2
     | Some c \<Rightarrow> (input_price c + output_price c) / 2)"

text \<open>
  The cost test of the candidate loop: the candidate is skipped when a truthy ceiling is
  given, cost optimisation is on and the average cost exceeds the ceiling.
\<close>

definition over_budget :: "MultiLLMRouter \<Rightarrow> rat option \<Rightarrow> string \<Rightarrow> bool" where
  "over_budget r max_cost model =
    (if truthy_num max_cost \<and> cost_optimization r
     then (case max_cost of None \<Rightarrow> False | Some mc \<Rightarrow> mc < avg_cost model)
     else False)"

text \<open>The first loop of \<^verbatim>\<open>route_task\<close>, over the candidates of the tier.\<close>

fun route_candidates ::
  "(string \<Rightarrow> string \<Rightarrow> rat \<Rightarrow> exn + 'l) \<Rightarrow> MultiLLMRouter \<Rightarrow> rat option \<Rightarrow>
   (string \<times> string) list \<Rightarrow> ('l \<times> string \<times> string) option" where
  "route_candidates chat r max_cost [] = None"
| "route_candidates chat r max_cost ((provider, model) # rest) =
    (if \<not> dict_get (available_providers r) provider False
     then route_candidates chat r max_cost rest
     else if over_budget r max_cost model
     then route_candidates chat r max_cost rest
     else (case create_llm chat r provider model of
             Inr llm \<Rightarrow> Some (llm, provider, model)
           | Inl e \<Rightarrow> route_candidates chat r max_cost rest))"

text \<open>The second loop of \<^verbatim>\<open>route_task\<close>, over the items of the availability map.\<close>

fun route_fallback ::
  "(string \<Rightarrow> string \<Rightarrow> rat \<Rightarrow> exn + 'l) \<Rightarrow> MultiLLMRouter \<Rightarrow>
   (string \<times> bool) list \<Rightarrow> ('l \<times> string \<times> string) option" where
  "route_fallback chat r [] = None"
| "route_fallback chat r ((provider, available) # rest) =
    (if available
     then (case create_llm chat r provider (get_fallback_model provider) of
             Inr llm \<Rightarrow> Some (llm, provider, get_fallback_model provider)
           | Inl e \<Rightarrow> route_fallback chat r rest)
     else route_fallback chat r rest)"

text \<open>
  The default override applies when provider and model are both set (truthy) and the
  provider is available.
\<close>

definition default_applies :: "MultiLLMRouter \<Rightarrow> bool" where
  "default_applies r =
    (truthy_str (default_provider r) \<and> truthy_str (default_model r) \<and>
     (case default_provider r of
        None \<Rightarrow> False
      | Some p \<Rightarrow> dict_get (available_providers r) p False))"

definition no_providers_msg :: string where
  "no_providers_msg = ''No LLM providers available. Please configure API keys.''"

text \<open>\<^verbatim>\<open>route_task\<close>. An exception of the default override's constructor is not caught.\<close>

definition route_task ::
  "(string \<Rightarrow> string \<Rightarrow> rat \<Rightarrow> exn + 'l) \<Rightarrow> MultiLLMRouter \<Rightarrow> string \<Rightarrow>
   TaskComplexity \<Rightarrow> rat option \<Rightarrow> exn + ('l \<times> string \<times> string)" where
  "route_task chat r task_description complexity max_cost =
    (if default_applies r
     then (case create_llm chat r (the (default_provider r)) (the (default_model r)) of
             Inl e \<Rightarrow> Inl e
           | Inr llm \<Rightarrow> Inr (llm, the (default_provider r), the (default_model r)))
     else (case route_candidates chat r max_cost (COMPLEXITY_MODELS complexity) of
             Some res \<Rightarrow> Inr res
           | None \<Rightarrow>
               (case route_fallback chat r (available_providers r) of
                  Some res \<Rightarrow> Inr res
                | None \<Rightarrow> Inl (RuntimeError no_providers_msg))))"

text \<open>\<^verbatim>\<open>estimate_cost\<close>; the token counts are Python integers.\<close>

definition estimate_cost :: "string \<Rightarrow> string \<Rightarrow> int \<Rightarrow> int \<Rightarrow> rat" where
  "estimate_cost provider model input_tokens output_tokens =
    (let costs = dict_get COST_MAP model \<lparr>input_price = 0, output_price = 0\<rparr>;
         input_cost = (of_int input_tokens / 1000000) * input_price costs;
         output_cost = (of_int output_tokens / 1000000) * output_price costs
     in input_cost + output_cost)"

text \<open>A client constructor that always succeeds, for concrete runs.\<close>

definition chat_ok :: "string \<Rightarrow> string \<Rightarrow> rat \<Rightarrow> exn + string" where
  "chat_ok cls model temp = Inr cls"

text \<open>Environments for concrete runs: one API key set, or none.\<close>

definition env_of :: "string list \<Rightarrow> string \<Rightarrow> string option" where
  "env_of keys name = (if name \<in> set keys then Some ''key'' else None)"

section \<open>Text operations used by the aggregator\<close>

text \<open>\<^verbatim>\<open>str.upper()\<close> and \<^verbatim>\<open>str.lower()\<close> on the ASCII letters.\<close>

definition upper_char :: "char \<Rightarrow> char" where
  "upper_char c =
    (case map_of (zip ''abcdefghijklmnopqrstuvwxyz'' ''ABCDEFGHIJKLMNOPQRSTUVWXYZ'') c of
       None \<Rightarrow> c | Some u \<Rightarrow> u)"

definition lower_char :: "char \<Rightarrow> char" where
  "lower_char c =
    (case map_of (zip ''ABCDEFGHIJKLMNOPQRSTUVWXYZ'' ''abcdefghijklmnopqrstuvwxyz'') c of
       None \<Rightarrow> c | Some l \<Rightarrow> l)"

definition upper :: "string \<Rightarrow> string" where
  "upper s = map upper_char s"

definition lower :: "string \<Rightarrow> string" where
  "lower s = map lower_char s"

text \<open>\<^verbatim>\<open>s.startswith(p)\<close> and the substring test \<^verbatim>\<open>sub in s\<close>.\<close>

fun starts_with :: "string \<Rightarrow> string \<Rightarrow> bool" where
  "starts_with [] s = True"
| "starts_with (p # ps) [] = False"
| "starts_with (p # ps) (c # cs) = (p = c \<and> starts_with ps cs)"

fun py_in :: "string \<Rightarrow> string \<Rightarrow> bool" where
  "py_in sub [] = (sub = [])"
| "py_in sub (c # cs) = (starts_with sub (c # cs) \<or> py_in sub cs)"

text \<open>
  The pattern \<^verbatim>\<open>confidence[:\s]+(\d+)\<close>. The two character classes are disjoint, so
  a match at a position is the word, the longest run of separators (at least one) and
  the longest run of digits (at least one), which is group 1. \<^verbatim>\<open>re.search\<close> takes
  the leftmost position with a match.
\<close>

definition is_space_char :: "char \<Rightarrow> bool" where
  "is_space_char c =
    (c \<in> set [CHR 0x20, CHR 0x09, CHR 0x0A, CHR 0x0B, CHR 0x0C, CHR 0x0D,
               CHR 0x1C, CHR 0x1D, CHR 0x1E, CHR 0x1F])"

definition is_sep_char :: "char \<Rightarrow> bool" where
  "is_sep_char c = (c = CHR '':'' \<or> is_space_char c)"

definition is_digit_char :: "char \<Rightarrow> bool" where
  "is_digit_char c = (c \<in> set ''0123456789'')"

fun strip_prefix :: "string \<Rightarrow> string \<Rightarrow> string option" where
  "strip_prefix [] s = Some s"
| "strip_prefix (p # ps) [] = None"
| "strip_prefix (p # ps) (c # cs) = (if p = c then strip_prefix ps cs else None)"

definition match_confidence_at :: "string \<Rightarrow> string option" where
  "match_confidence_at s =
    (case strip_prefix ''confidence'' s of
       None \<Rightarrow> None
     | Some rest \<Rightarrow>
         (let seps = takeWhile is_sep_char rest;
              digits = takeWhile is_digit_char (dropWhile is_sep_char rest)
          in if seps \<noteq> [] \<and> digits \<noteq> [] then Some digits else None))"

fun re_search_confidence :: "string \<Rightarrow> string option" where
  "re_search_confidence [] = None"
| "re_search_confidence (c # cs) =
    (case match_confidence_at (c # cs) of
       Some digits \<Rightarrow> Some digits
     | None \<Rightarrow> re_search_confidence cs)"

text \<open>\<^verbatim>\<open>int(digits)\<close> on a string of decimal digits.\<close>

definition digit_value :: "char \<Rightarrow> nat" where
  "digit_value c =
    (case map_of (zip ''0123456789'' [0, 1, 2, 3, 4, 5, 6, 7, 8, 9]) c of
       None \<Rightarrow> 0 | Some d \<Rightarrow> d)"

definition int_of_digits :: "string \<Rightarrow> nat" where
  "int_of_digits ds = foldl (\<lambda>n c. 10 * n + digit_value c) 0 ds"



text \<open>
  \<^verbatim>\<open>round(x, 1)\<close>: the nearest multiple of one tenth, a tie going to the even one.
\<close>

definition py_round1 :: "rat \<Rightarrow> rat" where
  "py_round1 x =
    (let y = x * 10; f = \<lfloor>y\<rfloor>; d = y - of_int f
     in (if d < 1 / 2 then of_int f
         else if 1 / 2 < d then of_int (f + 1)
         else if even f then of_int f else of_int (f + 1)) / 10)"

section \<open>The coordinator: \<^verbatim>\<open>task_coordinator.py\<close>\<close>

subsection \<open>Results of sub-tasks\<close>

text \<open>
  The dictionary an agent call leaves in the result mapping. The coordinator reads two
  keys: \<^verbatim>\<open>"error"\<close> and \<^verbatim>\<open>"analysis"\<close>; a key that is absent is \<open>None\<close>. The other keys
  of an agent's answer (ticker, data, timestamp) are carried along in \<open>other_keys\<close>.
\<close>

record result =
  error :: "string option"
  analysis :: "string option"
  other_keys :: "(string \<times> string) list"

text \<open>The entry \<^verbatim>\<open>{"error": str(e)}\<close> written when a sub-task raised.\<close>

definition error_result :: "exn \<Rightarrow> result" where
  "error_result e = \<lparr>error = Some (str_exn e), analysis = None, other_keys = []\<rparr>"

subsection \<open>The aggregator\<close>



text \<open>
  One turn of the loop of \<^verbatim>\<open>_determine_consensus\<close>, on the pair of the lists
  \<^verbatim>\<open>recommendations\<close> and \<^verbatim>\<open>confidence_scores\<close>.
\<close>

definition consensus_step ::
  "string \<times> result \<Rightarrow> string list \<times> nat list \<Rightarrow> string list \<times> nat list" where
  "consensus_step entry acc =
    (case entry of (agent_type, res) \<Rightarrow>
     (case acc of (recommendations, confidence_scores) \<Rightarrow>
       (if error res \<noteq> None then acc
        else
          (let text = (case analysis res of None \<Rightarrow> [] | Some a \<Rightarrow> a);
               recommendations' =
                 (if py_in ''BUY'' (upper text) then recommendations @ [''BUY'']
                  else if py_in ''SELL'' (upper text) then recommendations @ [''SELL'']
                  else if py_in ''HOLD'' (upper text) then recommendations @ [''HOLD'']
                  else recommendations);
               confidence_scores' =
                 (if py_in ''confidence'' (lower text)
                  then (case re_search_confidence (lower text) of
                          Some digits \<Rightarrow> confidence_scores @ [int_of_digits digits]
                        | None \<Rightarrow> confidence_scores)
                  else confidence_scores)
           in (recommendations', confidence_scores')))))"

text \<open>
  The verdict dictionary. The key \<^verbatim>\<open>"breakdown"\<close> is absent (\<open>None\<close>) from the verdict
  that the early return builds.
\<close>

record verdict =
  recommendation :: string
  confidence :: rat
  agreement :: rat
  breakdown :: "(string \<times> nat) list option"

definition determine_consensus :: "(string \<times> result) list \<Rightarrow> verdict" where
  "determine_consensus results =
    (case fold consensus_step results ([], []) of (recommendations, confidence_scores) \<Rightarrow>
      (if recommendations = []
       then \<lparr>recommendation = ''INSUFFICIENT_DATA'', confidence = 0, agreement = 0,
             breakdown = None\<rparr>
       else
         (let buy_count = count_list recommendations ''BUY'';
              sell_count = count_list recommendations ''SELL'';
              hold_count = count_list recommendations ''HOLD'';
              total = length recommendations;
              (consensus, agree) =
                (if buy_count > sell_count \<and> buy_count > hold_count
                 then (''BUY'', of_nat buy_count / of_nat total)
                 else if sell_count > buy_count \<and> sell_count > hold_count
                 then (''SELL'', of_nat sell_count / of_nat total)
                 else if hold_count > buy_count \<and> hold_count > sell_count
                 then (''HOLD'', of_nat hold_count / of_nat total)
                 else (''MIXED'',
                       of_nat (max buy_count (max sell_count hold_count)) / of_nat total));
              avg_confidence =
                (if confidence_scores \<noteq> []
                 then of_nat (sum_list confidence_scores) / of_nat (length confidence_scores)
                 else 5)
          in \<lparr>recommendation = consensus,
               confidence = py_round1 avg_confidence,
               agreement = py_round1 (agree * 100),
               breakdown = Some [(''BUY'', buy_count), (''SELL'', sell_count),
                                 (''HOLD'', hold_count)]\<rparr>)))"



text \<open>A successful entry whose free text is the given string, for concrete runs.\<close>

definition ok_result :: "string \<Rightarrow> result" where
  "ok_result text = \<lparr>error = None, analysis = Some text, other_keys = []\<rparr>"

subsection \<open>The agent cache\<close>

text \<open>
  An agent object: its class, the LLM client it built and the identity of the object
  (two constructor calls never give the same object).
\<close>

record 'l agent =
  agent_class :: string
  llm :: 'l
  obj_id :: nat



record 'l TaskCoordinator =
  llm_router :: MultiLLMRouter
  max_workers :: int
  agents :: "(string \<times> 'l agent) list"

text \<open>\<^verbatim>\<open>TaskCoordinator.__init__\<close>, given the router.\<close>

definition TaskCoordinator_init :: "MultiLLMRouter \<Rightarrow> int \<Rightarrow> 'l TaskCoordinator" where
  "TaskCoordinator_init router n = \<lparr>llm_router = router, max_workers = n, agents = []\<rparr>"




subsection \<open>Running a batch of sub-tasks\<close>

text \<open>
  A task is the tuple \<^verbatim>\<open>(agent_type, *args)\<close>: the name of the sub-task and its
  arguments. The function \<open>execute\<close> is the call \<^verbatim>\<open>self._execute_agent_task(agent_type, *args)\<close>
  seen from the batch: it returns the agent's answer or the exception the call raised.
\<close>

datatype arg = Str string | Kwargs "(string \<times> bool) list"

type_synonym task = "string \<times> arg list"

text \<open>
  The body of \<^verbatim>\<open>try: ... except Exception as e: ...\<close> around one sub-task: the answer,
  or the entry \<^verbatim>\<open>{"error": str(e)}\<close>, is stored under the name of the sub-task.
\<close>

definition record_outcome ::
  "(exn + result) \<times> string \<Rightarrow> (string \<times> result) list \<Rightarrow> (string \<times> result) list" where
  "record_outcome fut results =
    (case fut of (outcome, agent_type) \<Rightarrow>
       (case outcome of
          Inr res \<Rightarrow> AList.update agent_type res results
        | Inl e \<Rightarrow> AList.update agent_type (error_result e) results))"

text \<open>\<^verbatim>\<open>_execute_sequential\<close>.\<close>

definition execute_sequential ::
  "(string \<Rightarrow> arg list \<Rightarrow> exn + result) \<Rightarrow> task list \<Rightarrow> (string \<times> result) list" where
  "execute_sequential execute tasks =
    fold (\<lambda>task results. record_outcome (execute (fst task) (snd task), fst task) results)
      tasks []"

text \<open>
  \<^verbatim>\<open>ThreadPoolExecutor(max_workers=n)\<close> raises \<^verbatim>\<open>ValueError\<close> when \<open>n\<close> is not positive.
\<close>

definition thread_pool :: "int \<Rightarrow> exn + unit" where
  "thread_pool n =
    (if n \<le> 0 then Inl (ValueError ''max_workers must be greater than 0'') else Inr ())"

text \<open>
  \<^verbatim>\<open>_execute_parallel\<close>. One future is submitted per task; \<open>future_to_task\<close> pairs the
  outcome of each future with the name of its task, in the order of submission. The
  function \<open>as_completed\<close> is the order in which the pool hands the futures back.
\<close>

definition execute_parallel ::
  "'l TaskCoordinator \<Rightarrow> (string \<Rightarrow> arg list \<Rightarrow> exn + result) \<Rightarrow>
   (((exn + result) \<times> string) list \<Rightarrow> ((exn + result) \<times> string) list) \<Rightarrow>
   task list \<Rightarrow> exn + (string \<times> result) list" where
  "execute_parallel c execute as_completed tasks =
    (case thread_pool (max_workers c) of
       Inl e \<Rightarrow> Inl e
     | Inr executor \<Rightarrow>
         (let future_to_task = map (\<lambda>task. (execute (fst task) (snd task), fst task)) tasks
          in Inr (fold record_outcome (as_completed future_to_task) [])))"

subsection \<open>Batches of assets\<close>

text \<open>
  What \<^verbatim>\<open>batch_analyze\<close> returns. An entry of \<open>batch_results\<close> is the aggregated
  record of one asset (\<open>Inr\<close>) or the text of the exception its analysis raised (\<open>Inl\<close>).
\<close>

record 'a batch =
  batch_analysis :: bool
  batch_asset_type :: string
  total_analyzed :: nat
  batch_results :: "(string \<times> (string + 'a)) list"
  timestamp :: string

definition record_asset ::
  "(exn + 'a) \<times> string \<Rightarrow> (string \<times> (string + 'a)) list \<Rightarrow> (string \<times> (string + 'a)) list" where
  "record_asset fut results =
    (case fut of (outcome, ticker) \<Rightarrow>
       (case outcome of
          Inr res \<Rightarrow> AList.update ticker (Inr res) results
        | Inl e \<Rightarrow> AList.update ticker (Inl (str_exn e)) results))"

text \<open>
  \<^verbatim>\<open>batch_analyze\<close>. The functions \<open>stock\<close> and \<open>crypto\<close> are the outcomes of the
  submitted calls \<^verbatim>\<open>analyze_stock_comprehensive(ticker)\<close> and
  \<^verbatim>\<open>analyze_crypto_comprehensive(ticker)\<close>; \<open>now\<close> is the clock's ISO text.
\<close>

definition batch_analyze ::
  "'l TaskCoordinator \<Rightarrow> (string \<Rightarrow> exn + 'a) \<Rightarrow> (string \<Rightarrow> exn + 'a) \<Rightarrow>
   (((exn + 'a) \<times> string) list \<Rightarrow> ((exn + 'a) \<times> string) list) \<Rightarrow> string \<Rightarrow>
   string list \<Rightarrow> string \<Rightarrow> string \<Rightarrow> exn + 'a batch" where
  "batch_analyze c stock crypto as_completed now tickers atype analysis_type =
    (case thread_pool (max_workers c) of
       Inl e \<Rightarrow> Inl e
     | Inr executor \<Rightarrow>
         (let future_to_ticker =
                concat (map (\<lambda>ticker.
                  if atype = ''stock'' then [(stock ticker, ticker)]
                  else if atype = ''crypto'' then [(crypto ticker, ticker)]
                  else []) tickers);
              results = fold record_asset (as_completed future_to_ticker) []
          in Inr \<lparr>batch_analysis = True, batch_asset_type = atype,
                  total_analyzed = length results, batch_results = results,
                  timestamp = now\<rparr>))"

subsection \<open>Failure isolation, as the specification words it\<close>

text \<open>
  The entry that the outcome of a future leaves in the result mapping.
\<close>

definition entry_of :: "(exn + result) \<times> string \<Rightarrow> string \<times> result" where
  "entry_of fut =
    (case fut of (outcome, agent_type) \<Rightarrow>
       (agent_type, case outcome of Inr res \<Rightarrow> res | Inl e \<Rightarrow> error_result e))"

text \<open>
  The mapping \<open>res\<close> isolates the failure of the task \<open>bad\<close>, which raised \<open>e\<close>: it has
  one entry per task name, the entry of \<open>bad\<close> is the failure record of \<open>e\<close>, every other
  task has the answer that \<open>execute\<close> returned for it, and so exactly one entry is a
  failure and all the others are successes.
\<close>

definition failure_isolated ::
  "task list \<Rightarrow> (string \<Rightarrow> arg list \<Rightarrow> exn + result) \<Rightarrow> task \<Rightarrow> exn \<Rightarrow>
   (string \<times> result) list \<Rightarrow> bool" where
  "failure_isolated tasks execute bad e res =
    (length res = length tasks \<and>
     distinct (map fst res) \<and>
     set (map fst res) = set (map fst tasks) \<and>
     map_of res (fst bad) = Some (error_result e) \<and>
     list_all (\<lambda>t. t = bad \<or>
        (case execute (fst t) (snd t) of
           Inr r \<Rightarrow> map_of res (fst t) = Some r \<and> error r = None
         | Inl e' \<Rightarrow> False)) tasks \<and>
     length (filter (\<lambda>(name, r). error r \<noteq> None) res) = 1 \<and>
     length (filter (\<lambda>(name, r). error r = None) res) = length tasks - 1)"

text \<open>
  A batch of three sub-tasks and an \<open>execute\<close> for concrete runs: the technical
  sub-task raises, the others answer.
\<close>

definition demo_tasks :: "task list" where
  "demo_tasks =
    [(''fundamental'', [Str ''AAPL'']), (''technical'', [Str ''AAPL'']),
     (''stock_analyst'', [Str ''AAPL''])]"

definition demo_execute :: "string \<Rightarrow> arg list \<Rightarrow> exn + result" where
  "demo_execute agent_type args =
    (if agent_type = ''technical'' then Inl (RuntimeError ''timeout'')
     else Inr (ok_result (''HOLD. Seen by '' @ agent_type)))"

text \<open>A coordinator for concrete runs, with the given keys set and the given pool size.\<close>

definition demo_coordinator :: "string list \<Rightarrow> int \<Rightarrow> string TaskCoordinator" where
  "demo_coordinator keys n =
    TaskCoordinator_init (MultiLLMRouter_init (env_of keys) None None True (1 / 10)) n"

text \<open>The outcome of one asset's pipeline, for concrete runs.\<close>

definition demo_pipeline :: "string \<Rightarrow> exn + string" where
  "demo_pipeline ticker = Inr (''report on '' @ ticker)"

section \<open>Properties of the router\<close>

lemma dict_get_bool: "dict_get d p False \<Longrightarrow> map_of d p = Some True"
  by (auto simp: dict_get_def split: option.splits)

lemma route_candidates_sound:
  "route_candidates chat r mc cs = Some (client, p, m) \<Longrightarrow>
   dict_get (available_providers r) p False \<and> (p, m) \<in> set cs \<and> \<not> over_budget r mc m \<and>
   create_llm chat r p m = Inr client"
  by (induction chat r mc cs rule: route_candidates.induct) (auto split: if_splits sum.splits)

lemma route_candidates_over:
  "\<forall>(p, m) \<in> set cs. over_budget r mc m \<Longrightarrow> route_candidates chat r mc cs = None"
  by (induction chat r mc cs rule: route_candidates.induct) auto

lemma route_fallback_sound:
  "route_fallback chat r av = Some (client, p, m) \<Longrightarrow>
   (p, True) \<in> set av \<and> m = get_fallback_model p \<and> create_llm chat r p m = Inr client"
  by (induction chat r av rule: route_fallback.induct) (auto split: if_splits sum.splits)

lemma route_fallback_None:
  "route_fallback chat r av = None \<Longrightarrow> (p, True) \<in> set av \<Longrightarrow>
   isl (create_llm chat r p (get_fallback_model p))"
  by (induction chat r av rule: route_fallback.induct) (auto split: if_splits sum.splits)

lemma distinct_check_available: "distinct (map fst (check_available_providers getenv))"
  by (simp add: check_available_providers_def)

lemma route_task_available_gen:
  assumes "distinct (map fst (available_providers r))"
    and "route_task chat r d tier max_cost = Inr (client, provider, model)"
  shows "map_of (available_providers r) provider = Some True"
proof (cases "default_applies r")
  case True
  then obtain p where p: "default_provider r = Some p" "dict_get (available_providers r) p False"
    by (auto simp: default_applies_def split: option.splits)
  from assms(2) True p have "provider = p"
    by (auto simp: route_task_def split: sum.splits)
  with p show ?thesis by (simp add: dict_get_bool)
next
  case False
  show ?thesis
  proof (cases "route_candidates chat r max_cost (COMPLEXITY_MODELS tier)")
    case (Some res)
    with assms(2) False have "route_candidates chat r max_cost (COMPLEXITY_MODELS tier) = Some (client, provider, model)"
      by (simp add: route_task_def)
    then have "dict_get (available_providers r) provider False"
      by (rule route_candidates_sound [THEN conjunct1])
    then show ?thesis by (rule dict_get_bool)
  next
    case None
    with assms(2) False have "route_fallback chat r (available_providers r) = Some (client, provider, model)"
      by (simp add: route_task_def split: option.splits)
    then have "(provider, True) \<in> set (available_providers r)"
      by (rule route_fallback_sound [THEN conjunct1])
    with assms(1) show ?thesis by simp
  qed
qed

text \<open>
  C2. Whenever \<^verbatim>\<open>route_task\<close> returns a pair, by the default override, from the ranked
  candidates of the tier or from the fallback scan, the provider it returns is mapped to
  true by the availability map the router computed at construction. This holds for every
  environment, every default setting, every tier and every cost ceiling.
\<close>

theorem route_task_provider_available:
  "route_task chat (MultiLLMRouter_init getenv dp dm co temp) d tier max_cost = Inr (client, provider, model)
   \<Longrightarrow> map_of (available_providers (MultiLLMRouter_init getenv dp dm co temp)) provider = Some True"
  by (rule route_task_available_gen) (simp_all add: MultiLLMRouter_init_def distinct_check_available)

theorem route_task_provider_available_witness:
  "route_task chat_ok (MultiLLMRouter_init (env_of [''OPENAI_API_KEY'']) None None True (1 / 10))
      ''stock_analyst analysis'' MODERATE None = Inr (''ChatOpenAI'', ''openai'', ''gpt-4o-mini'') \<and>
   map_of (available_providers
      (MultiLLMRouter_init (env_of [''OPENAI_API_KEY'']) None None True (1 / 10))) ''openai'' = Some True"
proof -
  have run: "route_task chat_ok (MultiLLMRouter_init (env_of [''OPENAI_API_KEY'']) None None True (1 / 10))
      ''stock_analyst analysis'' MODERATE None = Inr (''ChatOpenAI'', ''openai'', ''gpt-4o-mini'')"
    by (simp add: route_task_def MultiLLMRouter_init_def check_available_providers_def env_of_def
        default_applies_def dict_get_def over_budget_def create_llm_def chat_ok_def)
  from run route_task_provider_available [OF run] show ?thesis by (rule conjI)
qed

lemma over_budget_below:
  "cost_optimization r \<Longrightarrow> mc \<noteq> 0 \<Longrightarrow> mc < avg_cost m \<Longrightarrow> over_budget r (Some mc) m"
  by (simp add: over_budget_def)

lemma fallback_values:
  "get_fallback_model ''openai'' = ''gpt-4o-mini''"
  "get_fallback_model ''anthropic'' = ''claude-3-5-haiku-20241022''"
  "get_fallback_model ''google'' = ''gemini-2.0-flash-exp''"
  by (simp_all add: get_fallback_model_def dict_get_def)

lemma fallback_not_in_upper_tiers:
  assumes "tier = COMPLEX \<or> tier = CRITICAL"
  shows "(p, get_fallback_model p) \<notin> set (COMPLEXITY_MODELS tier)"
proof
  assume "(p, get_fallback_model p) \<in> set (COMPLEXITY_MODELS tier)"
  with assms have
    "p = ''openai'' \<and> get_fallback_model p = ''gpt-4o'' \<or>
     p = ''anthropic'' \<and> get_fallback_model p = ''claude-3-5-sonnet-20241022'' \<or>
     p = ''google'' \<and> get_fallback_model p = ''gemini-1.5-pro'' \<or>
     p = ''anthropic'' \<and> get_fallback_model p = ''claude-3-opus-20240229''"
    by (elim disjE) (simp_all, blast+)
  then show False
    by (elim disjE conjE) (simp_all add: fallback_values)
qed

text \<open>
  C4, as amended. Take a router with cost optimisation switched on whose default override
  does not apply, any tier, and a non-zero ceiling strictly below the average cost of
  every candidate of the tier. Then \<^verbatim>\<open>route_task\<close> returns no candidate through the
  ranked loop: either it returns an available provider together with that provider's
  fixed fallback model (for the tiers COMPLEX and CRITICAL this pair is not in the tier's
  list), or it fails with the no-provider error, and then no available provider's
  fallback client could be constructed (in particular when no provider is available).
\<close>

theorem route_task_ceiling_below_tier:
  fixes chat :: "string \<Rightarrow> string \<Rightarrow> rat \<Rightarrow> exn + 'l"
  assumes r: "r = MultiLLMRouter_init getenv dp dm True temp"
    and nz: "mc \<noteq> 0"
    and below: "\<forall>(p, m) \<in> set (COMPLEXITY_MODELS tier). mc < avg_cost m"
    and nodef: "\<not> default_applies r"
  shows "(\<exists>client p. route_task chat r d tier (Some mc) = Inr (client, p, get_fallback_model p) \<and>
            map_of (available_providers r) p = Some True \<and>
            create_llm chat r p (get_fallback_model p) = Inr client \<and>
            (tier = COMPLEX \<or> tier = CRITICAL \<longrightarrow>
               (p, get_fallback_model p) \<notin> set (COMPLEXITY_MODELS tier))) \<or>
         (route_task chat r d tier (Some mc) = Inl (RuntimeError no_providers_msg) \<and>
          (\<forall>p. map_of (available_providers r) p = Some True \<longrightarrow>
               isl (create_llm chat r p (get_fallback_model p))))"
proof -
  have co: "cost_optimization r" by (simp add: r MultiLLMRouter_init_def)
  have dist: "distinct (map fst (available_providers r))"
    by (simp add: r MultiLLMRouter_init_def distinct_check_available)
  have "\<forall>(p, m) \<in> set (COMPLEXITY_MODELS tier). over_budget r (Some mc) m"
  proof (clarify)
    fix p m assume "(p, m) \<in> set (COMPLEXITY_MODELS tier)"
    with below have "mc < avg_cost m" by fastforce
    then show "over_budget r (Some mc) m" by (rule over_budget_below [OF co nz])
  qed
  then have none: "route_candidates chat r (Some mc) (COMPLEXITY_MODELS tier) = None"
    by (rule route_candidates_over)
  show ?thesis
  proof (cases "route_fallback chat r (available_providers r)")
    case None
    have 1: "route_task chat r d tier (Some mc) = Inl (RuntimeError no_providers_msg)"
      by (simp add: route_task_def nodef none None)
    have 2: "isl (create_llm chat r p (get_fallback_model p))"
      if "map_of (available_providers r) p = Some True" for p
      by (rule route_fallback_None [OF None map_of_SomeD [OF that]])
    from 1 2 show ?thesis by (intro disjI2 conjI allI impI)
  next
    case (Some res)
    obtain client p m where res: "res = (client, p, m)" by (cases res) auto
    from Some res have "route_fallback chat r (available_providers r) = Some (client, p, m)"
      by simp
    from route_fallback_sound [OF this]
    have snd: "(p, True) \<in> set (available_providers r)" "m = get_fallback_model p"
      "create_llm chat r p m = Inr client"
      by blast+
    have 1: "route_task chat r d tier (Some mc) = Inr (client, p, get_fallback_model p)"
      using snd(2) by (simp add: route_task_def nodef none Some res)
    have 2: "map_of (available_providers r) p = Some True"
      using dist snd(1) by simp
    have 3: "tier = COMPLEX \<or> tier = CRITICAL \<longrightarrow>
        (p, get_fallback_model p) \<notin> set (COMPLEXITY_MODELS tier)"
      using fallback_not_in_upper_tiers [of tier p] by (intro impI)
    show ?thesis
      by (rule disjI1, rule exI [of _ client], rule exI [of _ p])
        (intro conjI 1 2 3 snd(3) [unfolded snd(2)])
  qed
qed

theorem route_task_ceiling_below_tier_witness:
  "(1 :: rat) \<noteq> 0 \<and>
   list_all (\<lambda>(p, m). 1 < avg_cost m) (COMPLEXITY_MODELS COMPLEX) \<and>
   \<not> default_applies (MultiLLMRouter_init (env_of [''GROQ_API_KEY'']) None None True (1 / 10)) \<and>
   route_task chat_ok (MultiLLMRouter_init (env_of [''GROQ_API_KEY'']) None None True (1 / 10))
      ''technical analysis'' COMPLEX (Some 1) = Inr (''ChatGroq'', ''groq'', ''llama-3.1-8b-instant'')"
proof -
  let ?r = "MultiLLMRouter_init (env_of [''GROQ_API_KEY'']) None None True (1 / 10)"
  have nz: "(1 :: rat) \<noteq> 0" by simp
  have below: "\<forall>(p, m) \<in> set (COMPLEXITY_MODELS COMPLEX). 1 < avg_cost m"
    by (simp add: avg_cost_def COST_MAP_def)
  have nodef: "\<not> default_applies ?r"
    by (simp add: default_applies_def MultiLLMRouter_init_def)
  have av: "map_of (available_providers ?r) p = Some True \<longleftrightarrow> p = ''groq''" for p
    by (simp add: MultiLLMRouter_init_def check_available_providers_def env_of_def)
  have mk: "create_llm chat_ok ?r ''groq'' m = Inr ''ChatGroq''" for m
    by (simp add: create_llm_def chat_ok_def)
  have fb: "get_fallback_model ''groq'' = ''llama-3.1-8b-instant''"
    by (simp add: get_fallback_model_def dict_get_def)
  have "route_task chat_ok ?r ''technical analysis'' COMPLEX (Some 1) =
          Inr (''ChatGroq'', ''groq'', ''llama-3.1-8b-instant'')"
    using route_task_ceiling_below_tier [OF refl nz below nodef, of chat_ok "''technical analysis''"]
  proof (elim disjE exE conjE)
    fix client p
    assume *: "route_task chat_ok ?r ''technical analysis'' COMPLEX (Some 1) = Inr (client, p, get_fallback_model p)"
      and p: "map_of (available_providers ?r) p = Some True"
      and client: "create_llm chat_ok ?r p (get_fallback_model p) = Inr client"
    from p have pg: "p = ''groq''" by (simp only: av)
    from client have "client = ''ChatGroq''" by (simp add: pg mk)
    with * show ?thesis by (simp add: pg fb)
  next
    assume "\<forall>p. map_of (available_providers ?r) p = Some True \<longrightarrow>
               isl (create_llm chat_ok ?r p (get_fallback_model p))"
    then have "isl (create_llm chat_ok ?r ''groq'' (get_fallback_model ''groq''))"
      using av by blast
    then show ?thesis by (simp add: mk)
  qed
  moreover have "list_all (\<lambda>(p, m). 1 < avg_cost m) (COMPLEXITY_MODELS COMPLEX)"
    using below by (simp only: list_all_iff)
  ultimately show ?thesis using nz nodef by (intro conjI)
qed

text \<open>
  C4, as stated, fails: with cost optimisation switched off the ceiling is not looked at.
  Every COMPLEX candidate costs more than the ceiling 1 on average, and the router still
  returns the first COMPLEX candidate, which is not the fallback model of its provider.
\<close>

theorem route_task_ceiling_ignored_counterexample:
  "map snd (COMPLEXITY_MODELS COMPLEX) =
     [''gpt-4o'', ''claude-3-5-sonnet-20241022'', ''gemini-1.5-pro''] \<and>
   1 < avg_cost ''gpt-4o'' \<and> 1 < avg_cost ''claude-3-5-sonnet-20241022'' \<and>
   1 < avg_cost ''gemini-1.5-pro'' \<and>
   route_task chat_ok (MultiLLMRouter_init (env_of [''OPENAI_API_KEY'']) None None False (1 / 10))
      ''fundamental analysis'' COMPLEX (Some 1) = Inr (''ChatOpenAI'', ''openai'', ''gpt-4o'') \<and>
   (''openai'', ''gpt-4o'') \<in> set (COMPLEXITY_MODELS COMPLEX) \<and>
   get_fallback_model ''openai'' \<noteq> ''gpt-4o''"
  by (simp add: avg_cost_def COST_MAP_def route_task_def MultiLLMRouter_init_def
      check_available_providers_def env_of_def default_applies_def dict_get_def over_budget_def
      create_llm_def chat_ok_def get_fallback_model_def)

text \<open>
  C8. \<^verbatim>\<open>estimate_cost\<close> is the token counts, each divided by one million, times the
  model's input and output prices when the model is in the cost table, and 0 when it is
  not; a million tokens each way cost the sum of the two prices.
\<close>

theorem estimate_cost_formula:
  "(map_of COST_MAP model = Some c \<longrightarrow>
      estimate_cost provider model input_tokens output_tokens =
        (of_int input_tokens / 1000000) * input_price c +
        (of_int output_tokens / 1000000) * output_price c \<and>
      estimate_cost provider model 1000000 1000000 = input_price c + output_price c) \<and>
   (map_of COST_MAP model = None \<longrightarrow>
      estimate_cost provider model input_tokens output_tokens = 0)"
  by (simp add: estimate_cost_def dict_get_def)

theorem estimate_cost_formula_witness:
  "estimate_cost ''openai'' ''gpt-4o'' 1000000 1000000 = 25 / 2 \<and>
   estimate_cost ''openai'' ''gpt-4o'' 2000 500 = 1 / 100 \<and>
   estimate_cost ''acme'' ''no-such-model'' 1000000 1000000 = 0"
  using estimate_cost_formula [of "''gpt-4o''" "\<lparr>input_price = 250 / 100, output_price = 1000 / 100\<rparr>"
      "''openai''" 2000 500]
    estimate_cost_formula [of "''no-such-model''" "\<lparr>input_price = 0, output_price = 0\<rparr>"
      "''acme''" 1000000 1000000]
  by (simp add: COST_MAP_def)

section \<open>Properties of the aggregator\<close>





lemma consensus_step_tally:
  "fst (consensus_step e (recs, scores)) = recs \<or>
   fst (consensus_step e (recs, scores)) = recs @ [''BUY''] \<or>
   fst (consensus_step e (recs, scores)) = recs @ [''SELL''] \<or>
   fst (consensus_step e (recs, scores)) = recs @ [''HOLD'']"
  by (cases e) (simp add: consensus_step_def Let_def)

lemma fold_consensus_step_tallies:
  "set recs \<subseteq> {''BUY'', ''SELL'', ''HOLD''} \<Longrightarrow>
   set (fst (fold consensus_step rs (recs, scores))) \<subseteq> {''BUY'', ''SELL'', ''HOLD''}"
proof (induction rs arbitrary: recs scores)
  case Nil
  then show ?case by simp
next
  case (Cons e rs)
  obtain recs' scores' where st: "consensus_step e (recs, scores) = (recs', scores')"
    by (cases "consensus_step e (recs, scores)")
  from consensus_step_tally [of e recs scores] st Cons.prems
  have "set recs' \<subseteq> {''BUY'', ''SELL'', ''HOLD''}"
    by (elim disjE) simp_all
  from Cons.IH [OF this, of scores'] show ?case by (simp add: st)
qed

lemma length_three_counts:
  assumes "set xs \<subseteq> {a, b, c}" and "a \<noteq> b" and "a \<noteq> c" and "b \<noteq> c"
  shows "length xs = count_list xs a + count_list xs b + count_list xs c"
  using assms by (induction xs) auto

lemma tallies_total:
  "length (fst (fold consensus_step rs ([], []))) =
     count_list (fst (fold consensus_step rs ([], []))) ''BUY'' +
     count_list (fst (fold consensus_step rs ([], []))) ''SELL'' +
     count_list (fst (fold consensus_step rs ([], []))) ''HOLD''"
  by (rule length_three_counts [OF fold_consensus_step_tallies]) simp_all

text \<open>
  C3. On the mapping A: "BUY, confidence: 8", B: "BUY, confidence: 6", C: "SELL", all
  three entries successful, the verdict is BUY with the counts BUY 2, SELL 1, HOLD 0,
  agreement 66.7 (two of three tallies, as a percentage rounded to one decimal place) and
  confidence 7.0 (the mean of 8 and 6, rounded to one decimal place).
\<close>

theorem consensus_buy_example:
  "determine_consensus
     [(''A'', ok_result ''BUY, confidence: 8''),
      (''B'', ok_result ''BUY, confidence: 6''),
      (''C'', ok_result ''SELL'')] =
   \<lparr>recommendation = ''BUY'', confidence = 7, agreement = 667 / 10,
    breakdown = Some [(''BUY'', 2), (''SELL'', 1), (''HOLD'', 0)]\<rparr> \<and>
   py_round1 (2 / 3 * 100) = 667 / 10 \<and> py_round1 ((8 + 6) / 2) = 7"
  by code_simp

text \<open>
  C5. When the loop collected at least one tally and none of the three counts is
  strictly larger than both others, the recommendation is MIXED and the agreement is the
  largest of the three counts over their total, as a percentage rounded to one decimal
  place. The function is deterministic, being a function.
\<close>

theorem consensus_mixed:
  assumes recs: "fst (fold consensus_step rs ([], [])) = recs"
    and some: "recs \<noteq> []"
    and b: "b = count_list recs ''BUY''"
    and s: "s = count_list recs ''SELL''"
    and h: "h = count_list recs ''HOLD''"
    and nb: "\<not> (b > s \<and> b > h)"
    and ns: "\<not> (s > b \<and> s > h)"
    and nh: "\<not> (h > b \<and> h > s)"
  shows "recommendation (determine_consensus rs) = ''MIXED'' \<and>
         agreement (determine_consensus rs) =
           py_round1 (of_nat (max b (max s h)) / of_nat (b + s + h) * 100) \<and>
         0 < b + s + h"
proof -
  obtain scores where f: "fold consensus_step rs ([], []) = (recs, scores)"
    using recs by (cases "fold consensus_step rs ([], [])") simp
  have total: "length recs = b + s + h"
    using tallies_total [of rs] by (simp add: recs b s h)
  have "0 < length recs" using some by simp
  then have pos: "0 < b + s + h" by (simp only: total)
  have "recommendation (determine_consensus rs) = ''MIXED''"
    using some nb ns nh by (simp add: determine_consensus_def f Let_def b s h)
  moreover have "agreement (determine_consensus rs) =
      py_round1 (of_nat (max b (max s h)) / of_nat (length recs) * 100)"
    using some nb ns nh by (simp add: determine_consensus_def f Let_def b s h)
  ultimately show ?thesis using pos by (simp add: total)
qed

theorem consensus_mixed_witness:
  "recommendation (determine_consensus [(''A'', ok_result ''HOLD''), (''B'', ok_result ''BUY'')]) = ''MIXED'' \<and>
   agreement (determine_consensus [(''A'', ok_result ''HOLD''), (''B'', ok_result ''BUY'')]) = 50"
proof -
  let ?rs = "[(''A'', ok_result ''HOLD''), (''B'', ok_result ''BUY'')]"
  have recs: "fst (fold consensus_step ?rs ([], [])) = [''HOLD'', ''BUY'']" by code_simp
  have b: "(1::nat) = count_list [''HOLD'', ''BUY''] ''BUY''" by code_simp
  have s: "(0::nat) = count_list [''HOLD'', ''BUY''] ''SELL''" by code_simp
  have h: "(1::nat) = count_list [''HOLD'', ''BUY''] ''HOLD''" by code_simp
  have r: "py_round1 (of_nat (max 1 (max 0 1)) / of_nat (1 + 0 + 1) * 100) = 50" by code_simp
  have ne: "[''HOLD'', ''BUY''] \<noteq> ([] :: string list)" by simp
  have nb: "\<not> ((1::nat) > 0 \<and> (1::nat) > 1)" by simp
  have ns: "\<not> ((0::nat) > 1 \<and> (0::nat) > 1)" by simp
  have nh: "\<not> ((1::nat) > 1 \<and> (1::nat) > 0)" by simp
  from consensus_mixed [OF recs ne b s h nb ns nh] show ?thesis by (simp only: r)
qed

text \<open>
  C6, as amended. When at least one tally was collected, the verdict carries the counts
  of BUY, SELL and HOLD beside a recommendation that is one of BUY, SELL, HOLD and MIXED.
  When no tally was collected the verdict is INSUFFICIENT_DATA with confidence 0 and
  agreement 0, and it has no breakdown.
\<close>

theorem consensus_breakdown:
  "(fst (fold consensus_step rs ([], [])) \<noteq> [] \<longrightarrow>
      breakdown (determine_consensus rs) =
        Some [(''BUY'', count_list (fst (fold consensus_step rs ([], []))) ''BUY''),
              (''SELL'', count_list (fst (fold consensus_step rs ([], []))) ''SELL''),
              (''HOLD'', count_list (fst (fold consensus_step rs ([], []))) ''HOLD'')] \<and>
      recommendation (determine_consensus rs) \<in> {''BUY'', ''SELL'', ''HOLD'', ''MIXED''}) \<and>
   (fst (fold consensus_step rs ([], [])) = [] \<longrightarrow>
      determine_consensus rs =
        \<lparr>recommendation = ''INSUFFICIENT_DATA'', confidence = 0, agreement = 0,
         breakdown = None\<rparr>)"
proof -
  obtain recs scores where f: "fold consensus_step rs ([], []) = (recs, scores)"
    by (cases "fold consensus_step rs ([], [])")
  show ?thesis
    by (simp add: determine_consensus_def f Let_def)
qed

theorem consensus_breakdown_witness:
  "breakdown (determine_consensus [(''A'', ok_result ''HOLD''), (''B'', error_result (RuntimeError ''timeout''))]) =
     Some [(''BUY'', 0), (''SELL'', 0), (''HOLD'', 1)] \<and>
   determine_consensus [(''A'', ok_result ''nothing to say''), (''B'', error_result (RuntimeError ''timeout''))] =
     \<lparr>recommendation = ''INSUFFICIENT_DATA'', confidence = 0, agreement = 0, breakdown = None\<rparr>"
proof -
  let ?r1 = "[(''A'', ok_result ''HOLD''), (''B'', error_result (RuntimeError ''timeout''))]"
  let ?r2 = "[(''A'', ok_result ''nothing to say''), (''B'', error_result (RuntimeError ''timeout''))]"
  have 1: "fst (fold consensus_step ?r1 ([], [])) = [''HOLD'']" by code_simp
  have 2: "fst (fold consensus_step ?r2 ([], [])) = []" by code_simp
  have c: "count_list [''HOLD''] ''BUY'' = 0" "count_list [''HOLD''] ''SELL'' = 0"
    "count_list [''HOLD''] ''HOLD'' = 1"
    by simp_all
  from consensus_breakdown [of ?r1, unfolded 1 c] consensus_breakdown [of ?r2, unfolded 2]
  show ?thesis by simp
qed

text \<open>
  C6, as stated, fails: when every entry failed, no tally is collected and the verdict
  that comes back has no breakdown.
\<close>

theorem consensus_breakdown_counterexample:
  "determine_consensus [(''A'', error_result (RuntimeError ''timeout''))] =
     \<lparr>recommendation = ''INSUFFICIENT_DATA'', confidence = 0, agreement = 0, breakdown = None\<rparr> \<and>
   breakdown (determine_consensus [(''A'', error_result (RuntimeError ''timeout''))]) = None"
  by code_simp




section \<open>Properties of the coordinator\<close>

lemma update_new_key: "k \<notin> fst ` set al \<Longrightarrow> AList.update k v al = al @ [(k, v)]"
  by (induction al) auto

lemma record_outcome_entry:
  "record_outcome fut results = AList.update (fst (entry_of fut)) (snd (entry_of fut)) results"
  by (cases fut) (simp add: record_outcome_def entry_of_def split: sum.splits)

lemma fst_entry_of: "fst (entry_of fut) = snd fut"
  by (cases fut) (simp add: entry_of_def)

lemma fold_record_outcome:
  "distinct (map snd futs) \<Longrightarrow> snd ` set futs \<inter> fst ` set acc = {} \<Longrightarrow>
   fold record_outcome futs acc = acc @ map entry_of futs"
proof (induction futs arbitrary: acc)
  case Nil
  show ?case by simp
next
  case (Cons fut futs)
  have new: "snd fut \<notin> fst ` set acc" using Cons.prems(2) by auto
  have step: "record_outcome fut acc = acc @ [entry_of fut]"
    using update_new_key [OF new, of "snd (entry_of fut)"]
    by (simp add: record_outcome_entry fst_entry_of) (metis fst_entry_of prod.collapse)
  have "snd ` set futs \<inter> fst ` set (acc @ [entry_of fut]) = {}"
    using Cons.prems by (auto simp: fst_entry_of)
  with Cons.prems(1) have "fold record_outcome futs (acc @ [entry_of fut]) =
      (acc @ [entry_of fut]) @ map entry_of futs"
    by (intro Cons.IH) simp_all
  then show ?case by (simp add: step)
qed

lemma execute_sequential_futures:
  "execute_sequential execute tasks =
     fold record_outcome (map (\<lambda>task. (execute (fst task) (snd task), fst task)) tasks) []"
  by (simp add: execute_sequential_def fold_map comp_def)

lemma failed_plus_ok:
  "length (filter (\<lambda>(name, r). error r \<noteq> None) xs) +
   length (filter (\<lambda>(name, r). error r = None) xs) = length xs"
  by (induction xs) auto

lemma isolated_entries:
  assumes dist: "distinct (map fst tasks)"
    and bad: "bad \<in> set tasks" "execute (fst bad) (snd bad) = Inl e"
    and good: "\<forall>t \<in> set tasks. t \<noteq> bad \<longrightarrow> (\<exists>r. execute (fst t) (snd t) = Inr r \<and> error r = None)"
    and perm: "mset futs = mset (map (\<lambda>task. (execute (fst task) (snd task), fst task)) tasks)"
  shows "failure_isolated tasks execute bad e (map entry_of futs)"
proof -
  let ?fut = "\<lambda>task. (execute (fst task) (snd task), fst task)"
  let ?ent = "\<lambda>task. entry_of (?fut task)"
  let ?res = "map entry_of futs"
  have "mset ?res = image_mset entry_of (mset futs)" by simp
  also have "\<dots> = image_mset entry_of (image_mset ?fut (mset tasks))"
    by (simp only: perm mset_map)
  also have "\<dots> = image_mset ?ent (mset tasks)"
    by (simp only: multiset.map_comp comp_def)
  finally have mres: "mset ?res = image_mset ?ent (mset tasks)" .
  have fst_ent: "fst (?ent t) = fst t" for t by (simp add: entry_of_def)
  have mkeys: "mset (map fst ?res) = mset (map fst tasks)"
  proof -
    have "mset (map fst ?res) = image_mset fst (mset ?res)" by (simp only: mset_map)
    also have "\<dots> = image_mset (\<lambda>t. fst (?ent t)) (mset tasks)"
      by (simp only: mres multiset.map_comp comp_def)
    also have "\<dots> = mset (map fst tasks)" by (simp add: fst_ent)
    finally show ?thesis .
  qed
  have len: "length ?res = length tasks"
    using arg_cong [OF perm, of size] by simp
  have dres: "distinct (map fst ?res)"
    using dist by (simp only: mset_eq_imp_distinct_iff [OF mkeys])
  have keys: "set (map fst ?res) = set (map fst tasks)"
    by (rule mset_eq_setD [OF mkeys])
  have sres: "set ?res = ?ent ` set tasks"
    using arg_cong [OF mres, of set_mset] by simp
  have lookup: "map_of ?res (fst t) = Some (snd (?ent t))" if "t \<in> set tasks" for t
  proof -
    have "?ent t \<in> set ?res" using that sres by blast
    then have "(fst t, snd (?ent t)) \<in> set ?res" by (simp add: entry_of_def)
    with dres show ?thesis by (rule map_of_is_SomeI)
  qed
  have ebad: "map_of ?res (fst bad) = Some (error_result e)"
    using lookup [OF bad(1)] by (simp add: entry_of_def bad(2))
  have egood: "list_all (\<lambda>t. t = bad \<or>
        (case execute (fst t) (snd t) of
           Inr r \<Rightarrow> map_of ?res (fst t) = Some r \<and> error r = None
         | Inl e' \<Rightarrow> False)) tasks"
    unfolding list_all_iff
  proof (intro ballI)
    fix t assume t: "t \<in> set tasks"
    show "t = bad \<or> (case execute (fst t) (snd t) of
           Inr r \<Rightarrow> map_of ?res (fst t) = Some r \<and> error r = None
         | Inl e' \<Rightarrow> False)"
    proof (cases "t = bad")
      case True then show ?thesis by simp
    next
      case False
      with good t obtain r where r: "execute (fst t) (snd t) = Inr r" "error r = None" by blast
      with lookup [OF t] show ?thesis by (simp add: entry_of_def)
    qed
  qed
  have failed_iff: "(case ?ent t of (name, r) \<Rightarrow> error r \<noteq> None) \<longleftrightarrow> t = bad"
    if "t \<in> set tasks" for t
  proof (cases "t = bad")
    case True
    then show ?thesis by (simp add: entry_of_def bad(2) error_result_def)
  next
    case False
    with good that obtain r where "execute (fst t) (snd t) = Inr r" "error r = None" by blast
    with False show ?thesis by (simp add: entry_of_def)
  qed
  have dt: "distinct tasks" using dist by (rule distinct_map [THEN iffD1, THEN conjunct1])
  have "size (filter_mset (\<lambda>(name, r). error r \<noteq> None) (mset ?res)) =
        size (filter_mset (\<lambda>t. case ?ent t of (name, r) \<Rightarrow> error r \<noteq> None) (mset tasks))"
    by (simp only: mres filter_mset_image_mset size_image_mset comp_def)
  also have "filter_mset (\<lambda>t. case ?ent t of (name, r) \<Rightarrow> error r \<noteq> None) (mset tasks) =
        filter_mset (\<lambda>t. t = bad) (mset tasks)"
  proof (rule filter_mset_cong [OF refl])
    fix t assume "t \<in># mset tasks"
    then have "t \<in> set tasks" by simp
    then show "(case ?ent t of (name, r) \<Rightarrow> error r \<noteq> None) = (t = bad)"
      by (rule failed_iff)
  qed
  also have "size (filter_mset (\<lambda>t. t = bad) (mset tasks)) = count (mset tasks) bad"
    by (simp add: filter_eq_replicate_mset)
  also have "\<dots> = 1" using dt bad(1) by (cases bad) (simp add: distinct_count_atmost_1)
  finally have "size (mset (filter (\<lambda>(name, r). error r \<noteq> None) ?res)) = 1"
    by (simp only: mset_filter)
  then have nfail: "length (filter (\<lambda>(name, r). error r \<noteq> None) ?res) = 1"
    by (simp only: size_mset)
  have "length (filter (\<lambda>(name, r). error r \<noteq> None) ?res) +
        length (filter (\<lambda>(name, r). error r = None) ?res) = length ?res"
    by (rule failed_plus_ok)
  with nfail len have nok: "length (filter (\<lambda>(name, r). error r = None) ?res) = length tasks - 1"
    by simp
  show ?thesis
    unfolding failure_isolated_def
    by (intro conjI len dres keys ebad egood nfail nok)
qed

lemma fold_record_outcome_distinct:
  assumes "distinct (map snd futs)"
  shows "fold record_outcome futs [] = map entry_of futs"
  using fold_record_outcome [OF assms, of "[]"] by simp

text \<open>
  C1, as amended. Take a batch of tasks with pairwise distinct names and an \<open>execute\<close>
  that raises for exactly one of them and returns an answer without an error key for
  each of the others. The sequential path then returns one entry per task, in the order
  of the tasks, with the failure isolated: exactly one failure entry, that of the task
  that raised, holding the text of its exception, and a success entry for every other
  task. The parallel path, on a coordinator whose \<open>max_workers\<close> is positive and
  whatever the order in which the futures complete, returns a mapping with the same
  properties.
\<close>

theorem run_batch_failure_isolation:
  assumes dist: "distinct (map fst tasks)"
    and bad: "bad \<in> set tasks"
    and raised: "execute (fst bad) (snd bad) = Inl e"
    and good: "\<forall>t \<in> set tasks. t \<noteq> bad \<longrightarrow>
                 (\<exists>r. execute (fst t) (snd t) = Inr r \<and> error r = None)"
    and pool: "0 < max_workers c"
    and sched: "mset (as_completed (map (\<lambda>task. (execute (fst task) (snd task), fst task)) tasks)) =
                mset (map (\<lambda>task. (execute (fst task) (snd task), fst task)) tasks)"
  shows "failure_isolated tasks execute bad e (execute_sequential execute tasks) \<and>
         map fst (execute_sequential execute tasks) = map fst tasks \<and>
         (\<exists>res. execute_parallel c execute as_completed tasks = Inr res \<and>
                failure_isolated tasks execute bad e res)"
proof -
  let ?futs = "map (\<lambda>task. (execute (fst task) (snd task), fst task)) tasks"
  have names: "map snd ?futs = map fst tasks" by (simp add: comp_def)
  have dseq: "distinct (map snd ?futs)" using dist by (simp only: names)
  have seq: "execute_sequential execute tasks = map entry_of ?futs"
    by (simp only: execute_sequential_futures fold_record_outcome_distinct [OF dseq])
  have 1: "failure_isolated tasks execute bad e (execute_sequential execute tasks)"
    unfolding seq
    by (rule isolated_entries [where execute = execute and tasks = tasks and bad = bad and e = e,
          OF dist bad raised good refl])
  have 2: "map fst (execute_sequential execute tasks) = map fst tasks"
    unfolding seq by (simp add: comp_def entry_of_def)
  have meq: "mset (map snd (as_completed ?futs)) = mset (map snd ?futs)"
    using arg_cong [OF sched, of "image_mset snd"] by (simp only: mset_map)
  have dpar: "distinct (map snd (as_completed ?futs))"
    using dseq by (simp only: mset_eq_imp_distinct_iff [OF meq])
  have par: "execute_parallel c execute as_completed tasks = Inr (map entry_of (as_completed ?futs))"
    using pool
    by (simp add: execute_parallel_def thread_pool_def fold_record_outcome_distinct [OF dpar])
  have 3: "failure_isolated tasks execute bad e (map entry_of (as_completed ?futs))"
    by (rule isolated_entries [where execute = execute and tasks = tasks and bad = bad and e = e,
          OF dist bad raised good sched])
  from 1 2 par 3 show ?thesis by (intro conjI exI [of _ "map entry_of (as_completed ?futs)"])
qed

theorem run_batch_failure_isolation_witness:
  "execute_sequential demo_execute demo_tasks =
     [(''fundamental'', ok_result ''HOLD. Seen by fundamental''),
      (''technical'', error_result (RuntimeError ''timeout'')),
      (''stock_analyst'', ok_result ''HOLD. Seen by stock_analyst'')] \<and>
   execute_parallel (demo_coordinator [''OPENAI_API_KEY''] 4) demo_execute rev demo_tasks =
     Inr [(''stock_analyst'', ok_result ''HOLD. Seen by stock_analyst''),
          (''technical'', error_result (RuntimeError ''timeout'')),
          (''fundamental'', ok_result ''HOLD. Seen by fundamental'')] \<and>
   failure_isolated demo_tasks demo_execute (''technical'', [Str ''AAPL'']) (RuntimeError ''timeout'')
     (execute_sequential demo_execute demo_tasks) \<and>
   (\<exists>res. execute_parallel (demo_coordinator [''OPENAI_API_KEY''] 4) demo_execute rev demo_tasks =
            Inr res \<and>
          failure_isolated demo_tasks demo_execute (''technical'', [Str ''AAPL''])
            (RuntimeError ''timeout'') res)"
proof -
  have dist: "distinct (map fst demo_tasks)" by (simp add: demo_tasks_def)
  have bad: "(''technical'', [Str ''AAPL'']) \<in> set demo_tasks" by (simp add: demo_tasks_def)
  have raised: "demo_execute (fst (''technical'', [Str ''AAPL''])) (snd (''technical'', [Str ''AAPL''])) =
      Inl (RuntimeError ''timeout'')"
    by (simp add: demo_execute_def)
  have good: "\<forall>t \<in> set demo_tasks. t \<noteq> (''technical'', [Str ''AAPL'']) \<longrightarrow>
      (\<exists>r. demo_execute (fst t) (snd t) = Inr r \<and> error r = None)"
    by (simp add: demo_tasks_def demo_execute_def ok_result_def)
  have pool: "0 < max_workers (demo_coordinator [''OPENAI_API_KEY''] 4)"
    by (simp add: demo_coordinator_def TaskCoordinator_init_def)
  have sched: "mset (rev (map (\<lambda>task. (demo_execute (fst task) (snd task), fst task)) demo_tasks)) =
      mset (map (\<lambda>task. (demo_execute (fst task) (snd task), fst task)) demo_tasks)"
    by (simp only: mset_rev)
  have seq: "execute_sequential demo_execute demo_tasks =
     [(''fundamental'', ok_result ''HOLD. Seen by fundamental''),
      (''technical'', error_result (RuntimeError ''timeout'')),
      (''stock_analyst'', ok_result ''HOLD. Seen by stock_analyst'')]"
    by code_simp
  have par: "execute_parallel (demo_coordinator [''OPENAI_API_KEY''] 4) demo_execute rev demo_tasks =
     Inr [(''stock_analyst'', ok_result ''HOLD. Seen by stock_analyst''),
          (''technical'', error_result (RuntimeError ''timeout'')),
          (''fundamental'', ok_result ''HOLD. Seen by fundamental'')]"
    by code_simp
  from run_batch_failure_isolation [where execute = demo_execute and as_completed = rev
      and tasks = demo_tasks and bad = "(''technical'', [Str ''AAPL''])"
      and e = "RuntimeError ''timeout''" and c = "demo_coordinator [''OPENAI_API_KEY''] 4",
      OF dist bad raised good pool sched] seq par
  show ?thesis by (intro conjI) (elim conjE, assumption)+
qed

text \<open>
  C1, as stated, fails on the parallel path: a coordinator built with \<open>max_workers = 0\<close>
  cannot create its pool, and the batch ends with that exception, whatever the tasks.
\<close>

theorem run_batch_parallel_counterexample:
  "distinct (map fst demo_tasks) \<and>
   map (\<lambda>task. demo_execute (fst task) (snd task)) demo_tasks =
     [Inr (ok_result ''HOLD. Seen by fundamental''), Inl (RuntimeError ''timeout''),
      Inr (ok_result ''HOLD. Seen by stock_analyst'')] \<and>
   execute_parallel (demo_coordinator [''OPENAI_API_KEY''] 0) demo_execute rev demo_tasks =
     Inl (ValueError ''max_workers must be greater than 0'')"
  by code_simp

lemma concat_map_empty: "concat (map (\<lambda>x. []) xs) = []"
  by (induction xs) simp_all

text \<open>
  C10, as amended. On a coordinator whose \<open>max_workers\<close> is positive, \<^verbatim>\<open>batch_analyze\<close>
  called with an asset type that is neither "stock" nor "crypto" does not raise: no
  ticker is submitted, and it returns the batch record with an empty results mapping,
  \<open>total_analyzed = 0\<close>, the flag true, the asset type as given and the timestamp.
\<close>

theorem batch_analyze_unknown_asset_type:
  assumes pool: "0 < max_workers c"
    and ns: "atype \<noteq> ''stock''"
    and nc: "atype \<noteq> ''crypto''"
    and sched: "as_completed [] = []"
  shows "batch_analyze c stock crypto as_completed now tickers atype analysis_type =
           Inr \<lparr>batch_analysis = True, batch_asset_type = atype, total_analyzed = 0,
                batch_results = [], timestamp = now\<rparr>"
  using pool
  by (simp add: batch_analyze_def thread_pool_def ns nc concat_map_empty sched)

theorem batch_analyze_unknown_asset_type_witness:
  "batch_analyze (demo_coordinator [''OPENAI_API_KEY''] 4) demo_pipeline demo_pipeline rev
      ''2026-01-05T09:30:00'' [''AAPL'', ''MSFT''] ''bond'' ''comprehensive'' =
   Inr \<lparr>batch_analysis = True, batch_asset_type = ''bond'', total_analyzed = 0,
        batch_results = [], timestamp = ''2026-01-05T09:30:00''\<rparr>"
proof -
  have pool: "0 < max_workers (demo_coordinator [''OPENAI_API_KEY''] 4)"
    by (simp add: demo_coordinator_def TaskCoordinator_init_def)
  have ns: "''bond'' \<noteq> ''stock''" by simp
  have nc: "''bond'' \<noteq> ''crypto''" by simp
  have sched: "rev ([] :: ((exn + string) \<times> string) list) = []" by simp
  show ?thesis
    by (rule batch_analyze_unknown_asset_type [where as_completed = rev, OF pool ns nc sched])
qed

text \<open>
  C10, as stated, fails: on a coordinator built with \<open>max_workers = 0\<close> the pool cannot
  be created and \<^verbatim>\<open>batch_analyze\<close> raises before it looks at a ticker.
\<close>

theorem batch_analyze_pool_counterexample:
  "batch_analyze (demo_coordinator [''OPENAI_API_KEY''] 0) demo_pipeline demo_pipeline rev
      ''2026-01-05T09:30:00'' [''AAPL'', ''MSFT''] ''bond'' ''comprehensive'' =
   Inl (ValueError ''max_workers must be greater than 0'')"
  by code_simp















end
